theory Spec2Isabelle
  imports Main
begin

section \<open>Values and promise outcomes\<close>

text \<open>
  The values a promise of this code base is rejected with. \<open>ABORT\<close> is the symbol
  \<^verbatim>\<open>export const ABORT = Symbol('[[ABORT]]')\<close> of the async-tasks package;
  \<open>Error m\<close> is \<^verbatim>\<open>new Error(m)\<close>, told apart from other errors by its message
  only.
\<close>

datatype js_value = ABORT | Error string

datatype send_outcome = Fulfilled | Rejected js_value

section \<open>Configuration\<close>

text \<open>\<open>retryWaitTime\<close> is a number or a function of the attempt number.\<close>

datatype WaitTime = WaitConst int | WaitFn "int \<Rightarrow> int"

text \<open>
  Modelled from the spec: \<open>resolveWaitTime\<close> of @splunkdlt/async-tasks, imported by
  client.ts from a file this development does not have. "A resolve helper accepts either
  a literal number (treat as constant) or a strategy function and yields the per-attempt
  wait."
\<close>

fun resolveWaitTime :: "WaitTime \<Rightarrow> int \<Rightarrow> int" where
  "resolveWaitTime (WaitConst c) n = c"
| "resolveWaitTime (WaitFn f) n = f n"

text \<open>
  The cooked configuration, with the fields client.ts reads. Numbers are JavaScript
  numbers in the source; they are integers here (byte counts, entry counts and attempt
  numbers stay far below \<open>2^53\<close>, where the two agree). The default metadata and the
  default fields are only handed to the serializer and stay abstract.
\<close>

record ('md, 'fl) CookedHecConfig =
  url :: string
  token :: "string option"
  userAgent :: string
  validateCertificate :: bool
  timeout :: int
  maxSockets :: int
  requestKeepAlive :: bool
  defaultMetadata :: 'md
  defaultFields :: 'fl
  multipleMetricFormatEnabled :: bool
  maxQueueSize :: int
  maxQueueEntries :: int
  flushTime :: "int option"
  gzip :: bool
  maxRetries :: int
  retryWaitTime :: WaitTime

section \<open>Counters\<close>

record Counters =
  errorCount :: int
  retryCount :: int
  queuedMessages :: int
  sentMessages :: int
  queuedBytes :: int
  sentBytes :: int
  transferredBytes :: int

definition initialCounters :: Counters where
  "initialCounters =
     \<lparr>errorCount = 0, retryCount = 0, queuedMessages = 0, sentMessages = 0,
      queuedBytes = 0, sentBytes = 0, transferredBytes = 0\<rparr>"

section \<open>One send in flight\<close>

text \<open>
  A serialized message is a buffer of bytes; its \<open>length\<close> is its byte count.

  \<open>sendToHec\<close> is an async function: it runs until its next \<open>await\<close> and is resumed
  by the event loop. \<open>send_task\<close> is the state of one invocation between two resumptions:
  the batch, the wire body, the flag of the abort signal it was given, the attempt counter,
  and the await it is suspended at.
\<close>

type_synonym SerializedHecMsg = string

datatype send_phase = Compressing | Fetching | Sleeping int

record send_task =
  msgs :: "SerializedHecMsg list"
  body :: SerializedHecMsg
  abortSignal :: bool
  attempt :: int
  phase :: send_phase

text \<open>
  A \<open>FlushHandle\<close> holds the promise of its send and the abort controller whose signal
  the send reads; both are the \<open>send_task\<close>. \<open>cancel\<close> aborts the controller.
\<close>

type_synonym FlushHandle = send_task

definition cancel :: "FlushHandle \<Rightarrow> FlushHandle" where
  "cancel f = f\<lparr>abortSignal := True\<rparr>"

section \<open>The client\<close>

text \<open>
  The HTTP agent of a client: an object with an identity (\<open>agentId\<close>) and the options
  the constructor gives it. \<open>rejectUnauthorized\<close> is set for an HTTPS agent only.
\<close>

record HttpAgent =
  agentId :: nat
  secure :: bool
  keepAlive :: bool
  agentMaxSockets :: int
  agentTimeout :: int
  rejectUnauthorized :: "bool option"

text \<open>
  The fields of \<open>HecClient\<close>. \<open>instanceId\<close> is the identity of the object.
  \<open>flushTimer\<close> is \<open>Some d\<close> while a timer set for \<open>d\<close> milliseconds is pending.
  \<open>activeFlushing\<close> is the set of flush handles in insertion order; each position is one
  handle object. The aggregates (objects of @splunkdlt/stats-collector) and the debug
  log are outside the model.
\<close>

record ('md, 'fl) HecClient =
  instanceId :: nat
  config :: "('md, 'fl) CookedHecConfig"
  active :: bool
  queue :: "SerializedHecMsg list"
  queueSizeBytes :: int
  flushTimer :: "int option"
  activeFlushing :: "FlushHandle list"
  httpAgent :: HttpAgent
  counters :: Counters

subsection \<open>sendToHec up to its first await\<close>

text \<open>
  With gzip the function first awaits \<open>compressBody\<close>; without, it builds the headers,
  sets \<open>attempt\<close> to 1 and awaits the first \<open>fetch\<close>.
\<close>

definition sendToHec :: "('md, 'fl) CookedHecConfig \<Rightarrow> SerializedHecMsg list \<Rightarrow> send_task" where
  "sendToHec cfg ms =
     (if gzip cfg
      then \<lparr>msgs = ms, body = concat ms, abortSignal = False, attempt = 0, phase = Compressing\<rparr>
      else \<lparr>msgs = ms, body = concat ms, abortSignal = False, attempt = 1, phase = Fetching\<rparr>)"

subsection \<open>flushInternal, scheduleFlush, pushSerializedMsg\<close>

definition flushInternal :: "('md, 'fl) HecClient \<Rightarrow> ('md, 'fl) HecClient" where
  "flushInternal c =
     (let c1 = (if flushTimer c \<noteq> None then c\<lparr>flushTimer := None\<rparr> else c)
      in if length (queue c1) = 0 then c1
         else c1\<lparr>queue := [], queueSizeBytes := 0,
                 activeFlushing := activeFlushing c1 @ [sendToHec (config c1) (queue c1)]\<rparr>)"

definition scheduleFlush :: "('md, 'fl) HecClient \<Rightarrow> ('md, 'fl) HecClient" where
  "scheduleFlush c =
     (if maxQueueEntries (config c) \<noteq> - 1 \<and> int (length (queue c)) > maxQueueEntries (config c)
      then flushInternal c
      else if flushTimer c = None
           then c\<lparr>flushTimer := Some (case flushTime (config c) of None \<Rightarrow> 0 | Some t \<Rightarrow> t)\<rparr>
           else c)"

definition pushSerializedMsg ::
  "SerializedHecMsg \<Rightarrow> ('md, 'fl) HecClient \<Rightarrow> (js_value + unit) \<times> ('md, 'fl) HecClient" where
  "pushSerializedMsg serialized c =
     (if \<not> active c then (Inl (Error ''HEC client has been shut down''), c)
      else
        let c1 = c\<lparr>counters := (counters c)\<lparr>queuedMessages := queuedMessages (counters c) + 1\<rparr>\<rparr>;
            c2 = c1\<lparr>counters := (counters c1)\<lparr>queuedBytes := queuedBytes (counters c1) + int (length serialized)\<rparr>\<rparr>;
            c3 = (if queueSizeBytes c2 + int (length serialized) > maxQueueSize (config c2)
                  then flushInternal c2 else c2);
            c4 = c3\<lparr>queueSizeBytes := queueSizeBytes c3 + int (length serialized)\<rparr>;
            c5 = c4\<lparr>queue := queue c4 @ [serialized]\<rparr>
        in (Inr (), scheduleFlush c5))"

subsection \<open>flushStats\<close>

text \<open>
  The snapshot \<open>flushStats\<close> returns: the counters, the number of active flushes, the
  queue depth and the tracked byte total. (The entries of the aggregates and of the HTTP
  agent's status belong to objects outside the model.)
\<close>

record HecStats =
  statCounters :: Counters
  activeFlushingCount :: nat
  queueSize :: nat
  statQueueSizeBytes :: int

definition flushStats :: "('md, 'fl) HecClient \<Rightarrow> HecStats \<times> ('md, 'fl) HecClient" where
  "flushStats c =
     (let stats = \<lparr>statCounters = counters c, activeFlushingCount = length (activeFlushing c),
                   queueSize = length (queue c), statQueueSizeBytes = queueSizeBytes c\<rparr>
      in (stats, c\<lparr>counters := initialCounters\<rparr>))"

subsection \<open>sendToHec resumed by the event loop\<close>

text \<open>
  What the event loop hands to a suspended send: the result of \<open>compressBody\<close>, the
  result of \<open>fetch\<close> (a response with its status, or a rejection: network failure,
  timeout, abort), the end of the \<open>sleep\<close> between two attempts, and a call of
  \<open>abort()\<close> on the controller of the send's signal. \<open>response.ok\<close> is a status from
  200 to 299.
\<close>

datatype fetch_result = Response int | FetchFailed

datatype task_event =
  CompressSettled "js_value + SerializedHecMsg"
| FetchSettled fetch_result
| SleepDone
| AbortCalled

definition ok :: "int \<Rightarrow> bool" where
  "ok status = (200 \<le> status \<and> status \<le> 299)"

text \<open>The \<open>catch\<close> block of the loop of \<open>sendToHec\<close>, up to its next await.\<close>

definition catch_block ::
  "('md, 'fl) CookedHecConfig \<Rightarrow> send_task \<Rightarrow> Counters \<Rightarrow> (send_task + send_outcome) \<times> Counters" where
  "catch_block cfg t cs =
     (let cs1 = cs\<lparr>errorCount := errorCount cs + 1\<rparr>
      in if abortSignal t then (Inr (Rejected (Error ''Aborted'')), cs1)
         else if attempt t \<le> maxRetries cfg
              then (Inl (t\<lparr>phase := Sleeping (resolveWaitTime (retryWaitTime cfg) (attempt t))\<rparr>), cs1)
              else (Inl (t\<lparr>attempt := attempt t + 1, phase := Fetching\<rparr>), cs1))"

text \<open>
  One resumption: \<open>Inl\<close> is the send suspended at its next await, \<open>Inr\<close> the outcome
  its promise settles with. An event the send is not waiting for leaves it as it is.
\<close>

fun resume ::
  "('md, 'fl) CookedHecConfig \<Rightarrow> send_phase \<Rightarrow> task_event \<Rightarrow> send_task \<Rightarrow> Counters
     \<Rightarrow> (send_task + send_outcome) \<times> Counters" where
  "resume cfg ph AbortCalled t cs = (Inl (cancel t), cs)"
| "resume cfg Compressing (CompressSettled (Inl e)) t cs = (Inr (Rejected e), cs)"
| "resume cfg Compressing (CompressSettled (Inr z)) t cs =
     (Inl (t\<lparr>body := z, attempt := attempt t + 1, phase := Fetching\<rparr>), cs)"
| "resume cfg Fetching (FetchSettled (Response status)) t cs =
     (if ok status
      then (Inr Fulfilled,
            cs\<lparr>sentMessages := sentMessages cs + int (length (msgs t)),
               sentBytes := sentBytes cs + int (length (concat (msgs t))),
               transferredBytes := transferredBytes cs + int (length (body t))\<rparr>)
      else catch_block cfg t cs)"
| "resume cfg Fetching (FetchSettled FetchFailed) t cs = catch_block cfg t cs"
| "resume cfg (Sleeping d) SleepDone t cs =
     (if abortSignal t then (Inr (Rejected (Error ''Aborted'')), cs)
      else (Inl (t\<lparr>attempt := attempt t + 1, phase := Fetching\<rparr>),
            cs\<lparr>retryCount := retryCount cs + 1\<rparr>))"
| "resume cfg ph ev t cs = (Inl t, cs)"

definition sendToHec_resume ::
  "('md, 'fl) CookedHecConfig \<Rightarrow> task_event \<Rightarrow> send_task \<Rightarrow> Counters
     \<Rightarrow> (send_task + send_outcome) \<times> Counters" where
  "sendToHec_resume cfg ev t cs = resume cfg (phase t) ev t cs"

text \<open>
  A send driven by a list of events, from a suspended send or a settled one. A settled
  promise stays settled. The result is \<open>Inl\<close> when the events end before the promise
  settles.
\<close>

fun sendToHec_run ::
  "('md, 'fl) CookedHecConfig \<Rightarrow> task_event list \<Rightarrow> (send_task + send_outcome) \<times> Counters
     \<Rightarrow> (send_task + send_outcome) \<times> Counters" where
  "sendToHec_run cfg [] r = r"
| "sendToHec_run cfg (ev # evs) (Inl t, cs) = sendToHec_run cfg evs (sendToHec_resume cfg ev t cs)"
| "sendToHec_run cfg (ev # evs) (Inr out, cs) = (Inr out, cs)"

text \<open>
  The event loop resumes the send of the handle at position \<open>i\<close> of the active set. When
  the promise settles, \<open>removeFromActive\<close> deletes the handle.
\<close>

definition deliver ::
  "nat \<Rightarrow> task_event \<Rightarrow> ('md, 'fl) HecClient \<Rightarrow> send_outcome option \<times> ('md, 'fl) HecClient" where
  "deliver i ev c =
     (if i < length (activeFlushing c)
      then (case sendToHec_resume (config c) ev (activeFlushing c ! i) (counters c) of
              (Inl t, cs) \<Rightarrow> (None, c\<lparr>activeFlushing := (activeFlushing c)[i := t], counters := cs\<rparr>)
            | (Inr out, cs) \<Rightarrow>
                (Some out, c\<lparr>activeFlushing := take i (activeFlushing c) @ drop (Suc i) (activeFlushing c),
                              counters := cs\<rparr>))
      else (None, c))"

subsection \<open>The push operations\<close>

text \<open>
  Events, metrics and multi-metrics. The client reads the name and the value of a metric
  and the measurements of a multi-metric; the other attributes (time, fields, metadata)
  are passed on as they are. \<open>measurements\<close> lists the entries in the order of
  \<open>Object.entries\<close>, \<open>None\<close> for a value that is null or undefined.
\<close>

record ('v, 'r) Metric =
  metricName :: string
  metricValue :: 'v
  metricRest :: 'r

record ('v, 'r) MultiMetrics =
  measurements :: "(string \<times> 'v option) list"
  metricsRest :: 'r

datatype ('e, 'm) EventOrMetric = IsEvent (theEvent: 'e) | IsMetric (theMetric: 'm)

text \<open>
  The functions of serialize.ts, a file this development does not have: parameters of the
  model. A serializer may throw (\<open>Inl\<close>).
\<close>

record ('e, 'v, 'r, 'md, 'fl) Serializer =
  serializeEvent :: "'e \<Rightarrow> 'md \<Rightarrow> 'fl \<Rightarrow> js_value + SerializedHecMsg"
  serializeMetric :: "('v, 'r) Metric \<Rightarrow> 'md \<Rightarrow> 'fl \<Rightarrow> js_value + SerializedHecMsg"
  serializeMetrics :: "('v, 'r) MultiMetrics \<Rightarrow> 'md \<Rightarrow> 'fl \<Rightarrow> js_value + SerializedHecMsg"

definition pushEvent ::
  "('e, 'v, 'r, 'md, 'fl) Serializer \<Rightarrow> 'e \<Rightarrow> ('md, 'fl) HecClient
     \<Rightarrow> (js_value + unit) \<times> ('md, 'fl) HecClient" where
  "pushEvent sz event c =
     (case serializeEvent sz event (defaultMetadata (config c)) (defaultFields (config c)) of
        Inl e \<Rightarrow> (Inl e, c)
      | Inr serialized \<Rightarrow> pushSerializedMsg serialized c)"

definition pushMetric ::
  "('e, 'v, 'r, 'md, 'fl) Serializer \<Rightarrow> ('v, 'r) Metric \<Rightarrow> ('md, 'fl) HecClient
     \<Rightarrow> (js_value + unit) \<times> ('md, 'fl) HecClient" where
  "pushMetric sz metric c =
     (case serializeMetric sz metric (defaultMetadata (config c)) (defaultFields (config c)) of
        Inl e \<Rightarrow> (Inl e, c)
      | Inr serialized \<Rightarrow> pushSerializedMsg serialized c)"

text \<open>The loop of \<open>pushMetrics\<close> over the entries; an exception ends it.\<close>

fun pushMetrics_entries ::
  "('e, 'v, 'r, 'md, 'fl) Serializer \<Rightarrow> 'r \<Rightarrow> (string \<times> 'v option) list \<Rightarrow> ('md, 'fl) HecClient
     \<Rightarrow> (js_value + unit) \<times> ('md, 'fl) HecClient" where
  "pushMetrics_entries sz rest [] c = (Inr (), c)"
| "pushMetrics_entries sz rest ((n, None) # es) c = pushMetrics_entries sz rest es c"
| "pushMetrics_entries sz rest ((n, Some v) # es) c =
     (case pushMetric sz \<lparr>metricName = n, metricValue = v, metricRest = rest\<rparr> c of
        (Inl e, c') \<Rightarrow> (Inl e, c')
      | (Inr u, c') \<Rightarrow> pushMetrics_entries sz rest es c')"

definition pushMetrics ::
  "('e, 'v, 'r, 'md, 'fl) Serializer \<Rightarrow> ('v, 'r) MultiMetrics \<Rightarrow> ('md, 'fl) HecClient
     \<Rightarrow> (js_value + unit) \<times> ('md, 'fl) HecClient" where
  "pushMetrics sz metrics c =
     (if multipleMetricFormatEnabled (config c)
      then (case serializeMetrics sz metrics (defaultMetadata (config c)) (defaultFields (config c)) of
              Inl e \<Rightarrow> (Inl e, c)
            | Inr serialized \<Rightarrow> pushSerializedMsg serialized c)
      else pushMetrics_entries sz (metricsRest metrics) (measurements metrics) c)"

text \<open>
  \<open>push\<close> takes an event or a metric; \<open>isMetric\<close> (the object has a \<open>name\<close> that
  is not undefined) tells which.
\<close>

definition isMetric :: "('e, 'm) EventOrMetric \<Rightarrow> bool" where
  "isMetric msg = (case msg of IsEvent e \<Rightarrow> False | IsMetric m \<Rightarrow> True)"

definition push ::
  "('e, 'v, 'r, 'md, 'fl) Serializer \<Rightarrow> ('e, ('v, 'r) Metric) EventOrMetric \<Rightarrow> ('md, 'fl) HecClient
     \<Rightarrow> (js_value + unit) \<times> ('md, 'fl) HecClient" where
  "push sz msg c =
     (if isMetric msg then pushMetric sz (theMetric msg) c else pushEvent sz (theEvent msg) c)"

subsection \<open>flush and shutdown\<close>

text \<open>
  \<open>flush\<close> collects the promises of the active handles and calls \<open>flushInternal\<close>
  before its await; its effect on the client is that of \<open>flushInternal\<close>, and its promise
  waits for the handles then in the active set.

  \<open>shutdown\<close> clears \<open>active\<close>; with a \<open>maxTime\<close> and work outstanding it calls
  \<open>flush\<close> and is suspended at the race (\<open>True\<close>), else it goes on to cancel every
  active handle at once. \<open>shutdown_resume\<close> is the part after the race.
\<close>

definition flush :: "('md, 'fl) HecClient \<Rightarrow> ('md, 'fl) HecClient" where
  "flush c = flushInternal c"

definition shutdown_resume :: "('md, 'fl) HecClient \<Rightarrow> ('md, 'fl) HecClient" where
  "shutdown_resume c =
     (if length (activeFlushing c) > 0 then c\<lparr>activeFlushing := map cancel (activeFlushing c)\<rparr> else c)"

definition shutdown :: "int option \<Rightarrow> ('md, 'fl) HecClient \<Rightarrow> bool \<times> ('md, 'fl) HecClient" where
  "shutdown maxTime c =
     (let c1 = c\<lparr>active := False\<rparr>
      in if maxTime \<noteq> None \<and> (length (activeFlushing c1) > 0 \<or> length (queue c1) > 0)
         then (True, flush c1)
         else (False, shutdown_resume c1))"

subsection \<open>Runs of a client\<close>

text \<open>
  What can happen to a client, one step at a time: a call of a public operation, the
  flush timer firing (its callback calls \<open>flushInternal\<close>), a suspended \<open>shutdown\<close>
  resuming, and the event loop resuming a send.
\<close>

datatype ('e, 'v, 'r) client_step =
  Push "('e, ('v, 'r) Metric) EventOrMetric"
| PushEvent 'e
| PushMetric "('v, 'r) Metric"
| PushMetrics "('v, 'r) MultiMetrics"
| Flush
| FlushStats
| Shutdown "int option"
| ShutdownResumes
| TimerFires
| Delivers nat task_event

fun exec ::
  "('e, 'v, 'r, 'md, 'fl) Serializer \<Rightarrow> ('e, 'v, 'r) client_step \<Rightarrow> ('md, 'fl) HecClient
     \<Rightarrow> ('md, 'fl) HecClient" where
  "exec sz (Push msg) c = snd (push sz msg c)"
| "exec sz (PushEvent e) c = snd (pushEvent sz e c)"
| "exec sz (PushMetric m) c = snd (pushMetric sz m c)"
| "exec sz (PushMetrics ms) c = snd (pushMetrics sz ms c)"
| "exec sz Flush c = flush c"
| "exec sz FlushStats c = snd (flushStats c)"
| "exec sz (Shutdown maxTime) c = snd (shutdown maxTime c)"
| "exec sz ShutdownResumes c = shutdown_resume c"
| "exec sz TimerFires c = (if flushTimer c \<noteq> None then flushInternal c else c)"
| "exec sz (Delivers i ev) c = snd (deliver i ev c)"

fun run ::
  "('e, 'v, 'r, 'md, 'fl) Serializer \<Rightarrow> ('e, 'v, 'r) client_step list \<Rightarrow> ('md, 'fl) HecClient
     \<Rightarrow> ('md, 'fl) HecClient" where
  "run sz [] c = c"
| "run sz (s # ss) c = run sz ss (exec sz s c)"

subsection \<open>Construction and clone\<close>

text \<open>
  Object identities come from two counters: the clients and the HTTP agents constructed
  so far.
\<close>

record Allocated =
  clientsMade :: nat
  agentsMade :: nat

text \<open>
  The field initialisers and the constructor body after \<open>parseHecConfig\<close>: an HTTPS agent
  when the URL starts with \<open>https:\<close>, an HTTP agent otherwise.
\<close>

definition HecClient_init :: "('md, 'fl) CookedHecConfig \<Rightarrow> Allocated \<Rightarrow> ('md, 'fl) HecClient" where
  "HecClient_init cfg al =
     \<lparr>instanceId = clientsMade al, config = cfg, active = True, queue = [], queueSizeBytes = 0,
      flushTimer = None, activeFlushing = [],
      httpAgent =
        (if take 6 (url cfg) = ''https:''
         then \<lparr>agentId = agentsMade al, secure = True, keepAlive = requestKeepAlive cfg,
               agentMaxSockets = maxSockets cfg, agentTimeout = timeout cfg,
               rejectUnauthorized = Some (validateCertificate cfg)\<rparr>
         else \<lparr>agentId = agentsMade al, secure = False, keepAlive = requestKeepAlive cfg,
               agentMaxSockets = maxSockets cfg, agentTimeout = timeout cfg,
               rejectUnauthorized = None\<rparr>),
      counters = initialCounters\<rparr>"

text \<open>
  What \<open>clone\<close> and the constructor import from config.ts and utils.ts, files this
  development does not have, and what they ask of an overrides object \<open>'o\<close>: parameters
  of the model. \<open>keys\<close> is \<open>Object.keys\<close>; \<open>urlOf\<close> is the property \<open>url\<close>, \<open>None\<close> when
  it is undefined or null. \<open>parseHecConfig\<close> may throw (\<open>Inl\<close>).
\<close>

record ('o, 'md, 'fl) Imports =
  removeEmtpyValues :: "'o \<Rightarrow> 'o"
  keys :: "'o \<Rightarrow> string list"
  urlOf :: "'o \<Rightarrow> string option"
  deepMerge :: "('md, 'fl) CookedHecConfig \<Rightarrow> 'o \<Rightarrow> 'o"
  parseHecConfig :: "'o \<Rightarrow> js_value + ('md, 'fl) CookedHecConfig"

definition HecClient_new ::
  "('o, 'md, 'fl) Imports \<Rightarrow> 'o \<Rightarrow> Allocated \<Rightarrow> js_value + (('md, 'fl) HecClient \<times> Allocated)" where
  "HecClient_new im cfg al =
     (case parseHecConfig im cfg of
        Inl e \<Rightarrow> Inl e
      | Inr cooked \<Rightarrow>
          Inr (HecClient_init cooked al,
               al\<lparr>clientsMade := Suc (clientsMade al), agentsMade := Suc (agentsMade al)\<rparr>))"

definition clone ::
  "('o, 'md, 'fl) Imports \<Rightarrow> ('md, 'fl) HecClient \<Rightarrow> 'o option \<Rightarrow> Allocated
     \<Rightarrow> js_value + (('md, 'fl) HecClient \<times> Allocated)" where
  "clone im this configOverrides al =
     (case configOverrides of
        None \<Rightarrow> Inr (this, al)
      | Some ov \<Rightarrow>
          if length (keys im (removeEmtpyValues im ov)) = 0 then Inr (this, al)
          else if (case urlOf im ov of None \<Rightarrow> False | Some u \<Rightarrow> u \<noteq> [] \<and> u \<noteq> url (config this))
          then HecClient_new im (deepMerge im (config this) ov) al
          else (case HecClient_new im (deepMerge im (config this) ov) al of
                  Inl e \<Rightarrow> Inl e
                | Inr (cloned, al') \<Rightarrow> Inr (cloned\<lparr>httpAgent := httpAgent this\<rparr>, al')))"

section \<open>The abort handle of async-tasks\<close>

text \<open>
  An \<open>AbortHandle\<close> with the \<open>DefaultAbortPromise\<close> objects it has created. \<open>promises\<close>
  holds the \<open>aborted\<close> flag of each, in the order of creation; the position of a promise
  is its identity. \<open>handles\<close> is the set of the handle, in insertion order.
\<close>

record AbortHandle =
  aborted :: bool
  handles :: "nat list"
  promises :: "bool list"

definition AbortHandle_new :: AbortHandle where
  "AbortHandle_new = \<lparr>aborted = False, handles = [], promises = []\<rparr>"

definition abort :: "AbortHandle \<Rightarrow> AbortHandle" where
  "abort h =
     h\<lparr>aborted := True,
       promises := fold (\<lambda>k ps. ps[k := True]) (handles h) (promises h),
       handles := []\<rparr>"

text \<open>
  \<open>withAbort\<close> up to its await. \<open>Inl ABORT\<close>: the promise is rejected with \<open>ABORT\<close> and
  \<open>fn\<close> is not called. \<open>Inr k\<close>: \<open>fn\<close> has been called with the new promise \<open>k\<close>, and
  \<open>withAbort\<close> awaits its result. What \<open>fn\<close> does before it returns its promise is a
  function of a state \<open>'u\<close> of its own. \<open>withAbort_finally\<close> is the \<open>finally\<close> block, run
  when the promise of \<open>fn\<close> settles, whether fulfilled or rejected.
\<close>

definition withAbort ::
  "(nat \<Rightarrow> 'u \<Rightarrow> 'u) \<Rightarrow> AbortHandle \<Rightarrow> 'u \<Rightarrow> (js_value + nat) \<times> AbortHandle \<times> 'u" where
  "withAbort fn h u =
     (if aborted h then (Inl ABORT, h, u)
      else let k = length (promises h);
               h1 = h\<lparr>promises := promises h @ [False]\<rparr>;
               h2 = h1\<lparr>handles := (if k \<in> set (handles h1) then handles h1 else handles h1 @ [k])\<rparr>
           in (Inr k, h2, fn k u))"

definition withAbort_finally :: "nat \<Rightarrow> AbortHandle \<Rightarrow> AbortHandle" where
  "withAbort_finally k h = h\<lparr>handles := removeAll k (handles h)\<rparr>"

datatype abort_step = CallsWithAbort | Settles nat | CallsAbort

fun abort_exec :: "abort_step \<Rightarrow> AbortHandle \<Rightarrow> AbortHandle" where
  "abort_exec CallsWithAbort h = fst (snd (withAbort (\<lambda>k u. u) h ()))"
| "abort_exec (Settles k) h = withAbort_finally k h"
| "abort_exec CallsAbort h = abort h"

fun abort_run :: "abort_step list \<Rightarrow> AbortHandle \<Rightarrow> AbortHandle" where
  "abort_run [] h = h"
| "abort_run (s # ss) h = abort_run ss (abort_exec s h)"

section \<open>Notions used by the properties\<close>

text \<open>The bytes of a queue, and the tracked byte total agreeing with them.\<close>

definition queue_bytes :: "SerializedHecMsg list \<Rightarrow> int" where
  "queue_bytes q = sum_list (map (\<lambda>s. int (length s)) q)"

definition queue_inv :: "('md, 'fl) HecClient \<Rightarrow> bool" where
  "queue_inv c = (queueSizeBytes c = queue_bytes (queue c))"

text \<open>
  Whether a \<open>fetch\<close> ended in a response with \<open>response.ok\<close>.
\<close>

definition succeeded :: "fetch_result \<Rightarrow> bool" where
  "succeeded r = (case r of Response status \<Rightarrow> ok status | FetchFailed \<Rightarrow> False)"

text \<open>
  The first entry of the measurements whose value is not null.
\<close>

fun firstMeasurement :: "(string \<times> 'v option) list \<Rightarrow> (string \<times> 'v) option" where
  "firstMeasurement [] = None"
| "firstMeasurement ((n, None) # es) = firstMeasurement es"
| "firstMeasurement ((n, Some v) # es) = Some (n, v)"

text \<open>
  Every promise in the set of an abort handle has been created; and a promise that has
  been created and is not in the set.
\<close>

definition handles_wf :: "AbortHandle \<Rightarrow> bool" where
  "handles_wf h = list_all (\<lambda>k. k < length (promises h)) (handles h)"

definition gone :: "nat \<Rightarrow> AbortHandle \<Rightarrow> bool" where
  "gone k h = (k < length (promises h) \<and> k \<notin> set (handles h))"

subsection \<open>Concrete values\<close>

text \<open>
  A configuration, the client constructed from it, a serializer, and the imports of
  \<open>clone\<close> over overrides given as a list of keys with string values, for the
  properties evaluated at concrete inputs.
\<close>

definition example_config :: "(unit, unit) CookedHecConfig" where
  "example_config =
     \<lparr>url = ''http://localhost:8088/services/collector/event/1.0'', token = None,
      userAgent = ''hec-client'', validateCertificate = True, timeout = 30000,
      maxSockets = 256, requestKeepAlive = True, defaultMetadata = (), defaultFields = (),
      multipleMetricFormatEnabled = False, maxQueueSize = 10, maxQueueEntries = - 1,
      flushTime = Some 0, gzip = False, maxRetries = 3, retryWaitTime = WaitConst 1\<rparr>"

definition example_client :: "(unit, unit) HecClient" where
  "example_client = HecClient_init example_config \<lparr>clientsMade = 0, agentsMade = 0\<rparr>"

definition example_serializer :: "(string, int, unit, unit, unit) Serializer" where
  "example_serializer =
     \<lparr>serializeEvent = (\<lambda>e md fl. Inr e),
      serializeMetric = (\<lambda>m md fl. Inr (metricName m)),
      serializeMetrics = (\<lambda>ms md fl. Inr (concat (map fst (measurements ms))))\<rparr>"

definition example_imports :: "((string \<times> string) list, unit, unit) Imports" where
  "example_imports =
     \<lparr>removeEmtpyValues = filter (\<lambda>kv. snd kv \<noteq> []),
      keys = map fst,
      urlOf = (\<lambda>ov. map_of ov ''url''),
      deepMerge = (\<lambda>cfg ov. ov @ [(''url'', url cfg)]),
      parseHecConfig =
        (\<lambda>raw. case map_of raw ''url'' of
                  None \<Rightarrow> Inl (Error ''Invalid URL'')
                | Some u \<Rightarrow> Inr (example_config\<lparr>url := u\<rparr>))\<rparr>"

section \<open>Properties\<close>

text \<open>
  C10. \<open>flushStats\<close> returns the values the plain counters had before the call, sets each
  of the seven counters (errorCount, retryCount, queuedMessages, sentMessages,
  queuedBytes, sentBytes, transferredBytes) to zero, and leaves the queue, the tracked
  byte total, the set of active flushes and the configuration as they were.
\<close>

theorem flushStats_snapshot_reset:
  "statCounters (fst (flushStats c)) = counters c
   \<and> errorCount (counters (snd (flushStats c))) = 0
   \<and> retryCount (counters (snd (flushStats c))) = 0
   \<and> queuedMessages (counters (snd (flushStats c))) = 0
   \<and> sentMessages (counters (snd (flushStats c))) = 0
   \<and> queuedBytes (counters (snd (flushStats c))) = 0
   \<and> sentBytes (counters (snd (flushStats c))) = 0
   \<and> transferredBytes (counters (snd (flushStats c))) = 0
   \<and> queue (snd (flushStats c)) = queue c
   \<and> queueSizeBytes (snd (flushStats c)) = queueSizeBytes c
   \<and> activeFlushing (snd (flushStats c)) = activeFlushing c
   \<and> config (snd (flushStats c)) = config c"
  by (simp add: flushStats_def initialCounters_def)

subsection \<open>The tracked byte total\<close>

lemma queue_inv_flushInternal: "queue_inv c \<Longrightarrow> queue_inv (flushInternal c)"
  by (simp add: queue_inv_def flushInternal_def queue_bytes_def Let_def)

lemma queue_inv_scheduleFlush: "queue_inv c \<Longrightarrow> queue_inv (scheduleFlush c)"
  by (simp add: scheduleFlush_def queue_inv_flushInternal) (simp add: queue_inv_def)

lemma queue_inv_pushSerializedMsg: "queue_inv c \<Longrightarrow> queue_inv (snd (pushSerializedMsg s c))"
proof -
  assume inv: "queue_inv c"
  show ?thesis
  proof (cases "active c")
    case False
    then show ?thesis using inv by (simp add: pushSerializedMsg_def)
  next
    case True
    let ?c2 = "c\<lparr>counters := (counters c)\<lparr>queuedMessages := queuedMessages (counters c) + 1,
                 queuedBytes := queuedBytes (counters c) + int (length s)\<rparr>\<rparr>"
    have i2: "queue_inv ?c2" using inv by (simp add: queue_inv_def)
    let ?c3 = "if queueSizeBytes ?c2 + int (length s) > maxQueueSize (config ?c2)
               then flushInternal ?c2 else ?c2"
    have i3: "queue_inv ?c3" using i2 by (simp add: queue_inv_flushInternal)
    let ?c5 = "?c3\<lparr>queueSizeBytes := queueSizeBytes ?c3 + int (length s), queue := queue ?c3 @ [s]\<rparr>"
    have i5: "queue_inv ?c5" using i3 by (simp add: queue_inv_def queue_bytes_def)
    have "snd (pushSerializedMsg s c) = scheduleFlush ?c5"
      using True by (simp add: pushSerializedMsg_def Let_def)
    then show ?thesis using i5 by (simp only: queue_inv_scheduleFlush)
  qed
qed

lemma queue_inv_pushEvent: "queue_inv c \<Longrightarrow> queue_inv (snd (pushEvent sz e c))"
  by (simp add: pushEvent_def queue_inv_pushSerializedMsg split: sum.splits)

lemma queue_inv_pushMetric: "queue_inv c \<Longrightarrow> queue_inv (snd (pushMetric sz m c))"
  by (simp add: pushMetric_def queue_inv_pushSerializedMsg split: sum.splits)

lemma queue_inv_pushMetrics_entries:
  "queue_inv c \<Longrightarrow> queue_inv (snd (pushMetrics_entries sz r es c))"
proof (induction sz r es c rule: pushMetrics_entries.induct)
  case (1 sz rest c)
  then show ?case by simp
next
  case (2 sz rest n es c)
  then show ?case by simp
next
  case (3 sz rest n v es c)
  obtain res c' where p: "pushMetric sz \<lparr>metricName = n, metricValue = v, metricRest = rest\<rparr> c = (res, c')"
    by (cases "pushMetric sz \<lparr>metricName = n, metricValue = v, metricRest = rest\<rparr> c")
  have i': "queue_inv c'"
    using queue_inv_pushMetric [OF "3.prems", of sz "\<lparr>metricName = n, metricValue = v, metricRest = rest\<rparr>"] p
    by simp
  show ?case
  proof (cases res)
    case (Inl e)
    then show ?thesis using p i' by simp
  next
    case (Inr u)
    then show ?thesis using p i' "3.IH" by auto
  qed
qed

lemma queue_inv_pushMetrics: "queue_inv c \<Longrightarrow> queue_inv (snd (pushMetrics sz ms c))"
  by (simp add: pushMetrics_def queue_inv_pushSerializedMsg queue_inv_pushMetrics_entries
      split: sum.splits)

lemma queue_inv_push: "queue_inv c \<Longrightarrow> queue_inv (snd (push sz msg c))"
  by (simp add: push_def queue_inv_pushEvent queue_inv_pushMetric)

lemma queue_inv_deliver: "queue_inv c \<Longrightarrow> queue_inv (snd (deliver i ev c))"
  by (auto simp: deliver_def queue_inv_def split: prod.splits sum.splits)

lemma queue_inv_shutdown_resume: "queue_inv c \<Longrightarrow> queue_inv (shutdown_resume c)"
  by (simp add: shutdown_resume_def queue_inv_def)

lemma queue_inv_shutdown: "queue_inv c \<Longrightarrow> queue_inv (snd (shutdown mt c))"
proof -
  assume "queue_inv c"
  then have "queue_inv (c\<lparr>active := False\<rparr>)" by (simp add: queue_inv_def)
  then show ?thesis
    by (simp add: shutdown_def Let_def flush_def queue_inv_flushInternal queue_inv_shutdown_resume)
qed

lemma queue_inv_flushStats: "queue_inv c \<Longrightarrow> queue_inv (snd (flushStats c))"
  by (simp add: flushStats_def queue_inv_def)

lemma queue_inv_exec: "queue_inv c \<Longrightarrow> queue_inv (exec sz s c)"
  by (cases s)
     (simp_all add: queue_inv_push queue_inv_pushEvent queue_inv_pushMetric queue_inv_pushMetrics
        flush_def queue_inv_flushInternal queue_inv_flushStats queue_inv_shutdown
        queue_inv_shutdown_resume queue_inv_deliver)

lemma queue_inv_run: "queue_inv c \<Longrightarrow> queue_inv (run sz ss c)"
  by (induction ss arbitrary: c) (simp_all add: queue_inv_exec)

lemma queue_inv_init: "queue_inv (HecClient_init cfg al)"
  by (simp add: queue_inv_def HecClient_init_def queue_bytes_def)

text \<open>
  C5. In every state a client reaches from its construction, by any sequence of pushes,
  flushes, statistics calls, shutdown steps, timer firings and resumptions of sends, the
  tracked \<open>queueSizeBytes\<close> is the sum of the byte lengths of the messages in the
  queue; and \<open>flushInternal\<close>, which swaps the queue out, leaves an empty queue with
  a byte total of 0.
\<close>

theorem queueSizeBytes_tracks_queue:
  "queueSizeBytes (run sz ss (HecClient_init cfg al))
     = sum_list (map (\<lambda>s. int (length s)) (queue (run sz ss (HecClient_init cfg al))))
   \<and> queue (flushInternal (run sz ss (HecClient_init cfg al))) = []
   \<and> queueSizeBytes (flushInternal (run sz ss (HecClient_init cfg al))) = 0"
proof -
  have i: "queue_inv (run sz ss (HecClient_init cfg al))"
    by (rule queue_inv_run [OF queue_inv_init])
  have f: "queue_inv (flushInternal (run sz ss (HecClient_init cfg al)))"
    by (rule queue_inv_flushInternal [OF i])
  have q: "queue (flushInternal (run sz ss (HecClient_init cfg al))) = []"
    by (simp add: flushInternal_def Let_def)
  show ?thesis using i f q by (simp add: queue_inv_def queue_bytes_def)
qed


subsection \<open>scheduleFlush\<close>

lemma flushTimer_flushInternal: "flushTimer (flushInternal c) = None"
  by (simp add: flushInternal_def Let_def)

text \<open>
  C4 (amended). \<open>scheduleFlush\<close> does what \<open>flushInternal\<close> does, an immediate
  flush, if and only if \<open>maxQueueEntries\<close> is not \<open>-1\<close> and the queue has more entries
  than \<open>maxQueueEntries\<close>; the value 0 and the negative values other than \<open>-1\<close> do
  not disable the trigger. With \<open>maxQueueEntries = -1\<close> it never flushes, whatever the
  queue depth: it arms the idle timer if none is pending and changes nothing else.
\<close>

theorem scheduleFlush_entries_trigger:
  "(scheduleFlush c = flushInternal c)
     = (maxQueueEntries (config c) \<noteq> - 1 \<and> int (length (queue c)) > maxQueueEntries (config c))
   \<and> (scheduleFlush (c\<lparr>config := (config c)\<lparr>maxQueueEntries := - 1\<rparr>\<rparr>)
        = (if flushTimer c = None
           then c\<lparr>config := (config c)\<lparr>maxQueueEntries := - 1\<rparr>,
                  flushTimer := Some (case flushTime (config c) of None \<Rightarrow> 0 | Some t \<Rightarrow> t)\<rparr>
           else c\<lparr>config := (config c)\<lparr>maxQueueEntries := - 1\<rparr>\<rparr>))"
proof -
  have a: "(scheduleFlush c = flushInternal c)
     = (maxQueueEntries (config c) \<noteq> - 1 \<and> int (length (queue c)) > maxQueueEntries (config c))"
  proof (cases "maxQueueEntries (config c) \<noteq> - 1 \<and> int (length (queue c)) > maxQueueEntries (config c)")
    case True
    then show ?thesis by (simp add: scheduleFlush_def)
  next
    case False
    have "flushTimer (scheduleFlush c) \<noteq> None"
      using False by (auto simp: scheduleFlush_def)
    then have "scheduleFlush c \<noteq> flushInternal c"
      using flushTimer_flushInternal [of c] by auto
    then show ?thesis using False by simp
  qed
  have b: "scheduleFlush (c\<lparr>config := (config c)\<lparr>maxQueueEntries := - 1\<rparr>\<rparr>)
        = (if flushTimer c = None
           then c\<lparr>config := (config c)\<lparr>maxQueueEntries := - 1\<rparr>,
                  flushTimer := Some (case flushTime (config c) of None \<Rightarrow> 0 | Some t \<Rightarrow> t)\<rparr>
           else c\<lparr>config := (config c)\<lparr>maxQueueEntries := - 1\<rparr>\<rparr>)"
    by (simp add: scheduleFlush_def)
  show ?thesis using a b by blast
qed

text \<open>
  The specification asks for a positive \<open>maxQueueEntries\<close>. With
  \<open>maxQueueEntries = 0\<close> and one message queued, \<open>scheduleFlush\<close> flushes: the batch
  is handed to \<open>sendToHec\<close>.
\<close>

theorem scheduleFlush_zero_entries_counterexample:
  "scheduleFlush (example_client\<lparr>config := example_config\<lparr>maxQueueEntries := 0\<rparr>, queue := [''x''], queueSizeBytes := 1\<rparr>)
     = flushInternal (example_client\<lparr>config := example_config\<lparr>maxQueueEntries := 0\<rparr>, queue := [''x''], queueSizeBytes := 1\<rparr>)
   \<and> activeFlushing (scheduleFlush (example_client\<lparr>config := example_config\<lparr>maxQueueEntries := 0\<rparr>, queue := [''x''], queueSizeBytes := 1\<rparr>))
       = [sendToHec (example_config\<lparr>maxQueueEntries := 0\<rparr>) [''x'']]
   \<and> \<not> (0 < maxQueueEntries (config (example_client\<lparr>config := example_config\<lparr>maxQueueEntries := 0\<rparr>, queue := [''x''], queueSizeBytes := 1\<rparr>)))"
  by (simp add: scheduleFlush_def flushInternal_def example_client_def HecClient_init_def example_config_def Let_def)

subsection \<open>pushSerializedMsg at the size limit\<close>

lemma active_flushInternal: "active (flushInternal c) = active c"
  by (simp add: flushInternal_def Let_def)

lemma active_scheduleFlush: "active (scheduleFlush c) = active c"
  by (simp add: scheduleFlush_def active_flushInternal)

lemma active_pushSerializedMsg: "active (snd (pushSerializedMsg s c)) = active c"
  by (simp add: pushSerializedMsg_def Let_def active_scheduleFlush active_flushInternal)

text \<open>
  C3 (amended). On a client that is not shut down, when the tracked byte total plus the
  length of the new message exceeds \<open>maxQueueSize\<close>, the queue as it stands is flushed
  before the message is appended: a non-empty queue becomes a batch in flight without the
  newcomer (an empty queue dispatches nothing). After the push the queue holds exactly the
  new message, unless the entries trigger fires on a queue of one entry
  (\<open>maxQueueEntries\<close> not \<open>-1\<close> and below 1): then the new message is dispatched at
  once as a batch of its own and the queue is empty.
\<close>

theorem pushSerializedMsg_size_trigger:
  assumes "active c"
    and "queueSizeBytes c + int (length s) > maxQueueSize (config c)"
  shows "fst (pushSerializedMsg s c) = Inr ()
    \<and> queue (snd (pushSerializedMsg s c))
        = (if maxQueueEntries (config c) \<noteq> - 1 \<and> maxQueueEntries (config c) < 1 then [] else [s])
    \<and> queueSizeBytes (snd (pushSerializedMsg s c))
        = (if maxQueueEntries (config c) \<noteq> - 1 \<and> maxQueueEntries (config c) < 1 then 0
           else if queue c = [] then queueSizeBytes c + int (length s) else int (length s))
    \<and> activeFlushing (snd (pushSerializedMsg s c))
        = activeFlushing c
          @ (if queue c = [] then [] else [sendToHec (config c) (queue c)])
          @ (if maxQueueEntries (config c) \<noteq> - 1 \<and> maxQueueEntries (config c) < 1
             then [sendToHec (config c) [s]] else [])"
  using assms
  by (simp add: pushSerializedMsg_def Let_def scheduleFlush_def flushInternal_def)

theorem pushSerializedMsg_size_trigger_witness:
  "active (snd (pushSerializedMsg ''aaaaaaaa'' example_client))
   \<and> queueSizeBytes (snd (pushSerializedMsg ''aaaaaaaa'' example_client)) + int (length ''bbbb'')
       > maxQueueSize (config (snd (pushSerializedMsg ''aaaaaaaa'' example_client)))
   \<and> queue (snd (pushSerializedMsg ''bbbb'' (snd (pushSerializedMsg ''aaaaaaaa'' example_client))))
       = [''bbbb'']
   \<and> activeFlushing (snd (pushSerializedMsg ''bbbb'' (snd (pushSerializedMsg ''aaaaaaaa'' example_client))))
       = [sendToHec example_config [''aaaaaaaa'']]"
proof -
  let ?c1 = "snd (pushSerializedMsg ''aaaaaaaa'' example_client)"
  have a: "active ?c1"
    by (simp add: active_pushSerializedMsg) (simp add: example_client_def HecClient_init_def)
  have q: "queue ?c1 = [''aaaaaaaa'']" and b: "queueSizeBytes ?c1 = 8"
    and m: "config ?c1 = example_config" and f: "activeFlushing ?c1 = []"
    by (simp_all add: pushSerializedMsg_def scheduleFlush_def flushInternal_def Let_def
        example_client_def HecClient_init_def example_config_def)
  have h: "queueSizeBytes ?c1 + int (length ''bbbb'') > maxQueueSize (config ?c1)"
    by (simp add: b m) (simp add: example_config_def)
  have e: "maxQueueEntries example_config = - 1" by (simp add: example_config_def)
  show ?thesis
    using a h pushSerializedMsg_size_trigger [OF a h] by (simp add: q m f e)
qed

text \<open>
  The specification has the new message in the queue after every such push. With
  \<open>maxQueueEntries = 0\<close>, a message of 12 bytes pushed to a new client with
  \<open>maxQueueSize = 10\<close> is dispatched at once and the queue is empty after the push.
\<close>

theorem pushSerializedMsg_size_trigger_counterexample:
  "active (example_client\<lparr>config := example_config\<lparr>maxQueueEntries := 0\<rparr>\<rparr>)
   \<and> queueSizeBytes (example_client\<lparr>config := example_config\<lparr>maxQueueEntries := 0\<rparr>\<rparr>)
         + int (length ''bbbbbbbbbbbb'')
       > maxQueueSize (config (example_client\<lparr>config := example_config\<lparr>maxQueueEntries := 0\<rparr>\<rparr>))
   \<and> queue (snd (pushSerializedMsg ''bbbbbbbbbbbb''
                    (example_client\<lparr>config := example_config\<lparr>maxQueueEntries := 0\<rparr>\<rparr>)))
       = []
   \<and> queue (snd (pushSerializedMsg ''bbbbbbbbbbbb''
                    (example_client\<lparr>config := example_config\<lparr>maxQueueEntries := 0\<rparr>\<rparr>)))
       \<noteq> [''bbbbbbbbbbbb'']"
  by (simp add: pushSerializedMsg_def scheduleFlush_def flushInternal_def Let_def
      example_client_def HecClient_init_def example_config_def)

subsection \<open>Pushing after shutdown\<close>

lemma active_pushEvent: "active (snd (pushEvent sz e c)) = active c"
  by (simp add: pushEvent_def active_pushSerializedMsg split: sum.splits)

lemma active_pushMetric: "active (snd (pushMetric sz m c)) = active c"
  by (simp add: pushMetric_def active_pushSerializedMsg split: sum.splits)

lemma active_pushMetrics_entries: "active (snd (pushMetrics_entries sz r es c)) = active c"
proof (induction sz r es c rule: pushMetrics_entries.induct)
  case (1 sz rest c)
  then show ?case by simp
next
  case (2 sz rest n es c)
  then show ?case by simp
next
  case (3 sz rest n v es c)
  obtain res c' where p: "pushMetric sz \<lparr>metricName = n, metricValue = v, metricRest = rest\<rparr> c = (res, c')"
    by (cases "pushMetric sz \<lparr>metricName = n, metricValue = v, metricRest = rest\<rparr> c")
  have a': "active c' = active c"
    using active_pushMetric [of sz "\<lparr>metricName = n, metricValue = v, metricRest = rest\<rparr>" c] p
    by simp
  show ?case
  proof (cases res)
    case (Inl e)
    then show ?thesis using p a' by simp
  next
    case (Inr u)
    then show ?thesis using p a' "3.IH" by auto
  qed
qed

lemma active_pushMetrics: "active (snd (pushMetrics sz ms c)) = active c"
  by (simp add: pushMetrics_def active_pushSerializedMsg active_pushMetrics_entries split: sum.splits)

lemma active_push: "active (snd (push sz msg c)) = active c"
  by (simp add: push_def active_pushEvent active_pushMetric)

lemma active_deliver: "active (snd (deliver i ev c)) = active c"
  by (auto simp: deliver_def split: prod.splits sum.splits)

lemma active_shutdown_resume: "active (shutdown_resume c) = active c"
  by (simp add: shutdown_resume_def)

lemma active_shutdown: "\<not> active (snd (shutdown mt c))"
  by (simp add: shutdown_def Let_def flush_def active_flushInternal active_shutdown_resume)

lemma active_exec: "\<not> active c \<Longrightarrow> \<not> active (exec sz s c)"
  by (cases s)
     (simp_all add: active_push active_pushEvent active_pushMetric active_pushMetrics flush_def
        active_flushInternal flushStats_def active_shutdown active_shutdown_resume active_deliver)

lemma active_run: "\<not> active c \<Longrightarrow> \<not> active (run sz ss c)"
  by (induction ss arbitrary: c) (simp_all add: active_exec)

lemma shut_pushSerializedMsg:
  "\<not> active c \<Longrightarrow> pushSerializedMsg s c = (Inl (Error ''HEC client has been shut down''), c)"
  by (simp add: pushSerializedMsg_def)

lemma shut_pushMetric:
  "\<not> active c \<Longrightarrow> pushMetric sz m c =
     (case serializeMetric sz m (defaultMetadata (config c)) (defaultFields (config c)) of
        Inl x \<Rightarrow> (Inl x, c)
      | Inr z \<Rightarrow> (Inl (Error ''HEC client has been shut down''), c))"
  by (simp add: pushMetric_def shut_pushSerializedMsg split: sum.splits)

lemma shut_pushEvent:
  "\<not> active c \<Longrightarrow> pushEvent sz e c =
     (case serializeEvent sz e (defaultMetadata (config c)) (defaultFields (config c)) of
        Inl x \<Rightarrow> (Inl x, c)
      | Inr z \<Rightarrow> (Inl (Error ''HEC client has been shut down''), c))"
  by (simp add: pushEvent_def shut_pushSerializedMsg split: sum.splits)

lemma shut_pushMetrics_entries:
  "\<not> active c \<Longrightarrow> pushMetrics_entries sz r es c =
     (case firstMeasurement es of
        None \<Rightarrow> (Inr (), c)
      | Some (n, v) \<Rightarrow> pushMetric sz \<lparr>metricName = n, metricValue = v, metricRest = r\<rparr> c)"
proof (induction es)
  case Nil
  then show ?case by simp
next
  case (Cons a es)
  obtain n ov where a: "a = (n, ov)" by (cases a)
  show ?case
  proof (cases ov)
    case None
    then show ?thesis using a Cons by simp
  next
    case (Some v)
    then show ?thesis using a Cons.prems
      by (simp add: shut_pushMetric split: sum.splits)
  qed
qed

text \<open>
  C7 (amended). In every state a client reaches after \<open>shutdown\<close> has been called,
  \<open>pushSerializedMsg\<close> throws the error "HEC client has been shut down" and leaves the
  client as it is. \<open>pushEvent\<close>, \<open>pushMetric\<close> and \<open>push\<close> serialize first: an
  exception of the serializer is the one thrown, otherwise the shutdown error is; the
  client is unchanged in both cases. \<open>pushMetrics\<close> in the multi-measurement format
  does the same; with the format disabled it fails as \<open>pushMetric\<close> does on its first
  measurement that is not null, and returns normally, without effect, when it has none.
\<close>

theorem push_after_shutdown:
  assumes "c = run sz ss (snd (shutdown maxTime c0))"
  shows "pushSerializedMsg s c = (Inl (Error ''HEC client has been shut down''), c)
    \<and> pushEvent sz e c =
        (case serializeEvent sz e (defaultMetadata (config c)) (defaultFields (config c)) of
           Inl x \<Rightarrow> (Inl x, c)
         | Inr z \<Rightarrow> (Inl (Error ''HEC client has been shut down''), c))
    \<and> pushMetric sz m c =
        (case serializeMetric sz m (defaultMetadata (config c)) (defaultFields (config c)) of
           Inl x \<Rightarrow> (Inl x, c)
         | Inr z \<Rightarrow> (Inl (Error ''HEC client has been shut down''), c))
    \<and> push sz (IsEvent e) c = pushEvent sz e c
    \<and> push sz (IsMetric m) c = pushMetric sz m c
    \<and> pushMetrics sz ms c =
        (if multipleMetricFormatEnabled (config c)
         then (case serializeMetrics sz ms (defaultMetadata (config c)) (defaultFields (config c)) of
                 Inl x \<Rightarrow> (Inl x, c)
               | Inr z \<Rightarrow> (Inl (Error ''HEC client has been shut down''), c))
         else (case firstMeasurement (measurements ms) of
                 None \<Rightarrow> (Inr (), c)
               | Some (n, v) \<Rightarrow>
                   pushMetric sz \<lparr>metricName = n, metricValue = v, metricRest = metricsRest ms\<rparr> c))"
proof -
  have na: "\<not> active c"
    unfolding assms by (rule active_run [OF active_shutdown])
  have 1: "pushSerializedMsg s c = (Inl (Error ''HEC client has been shut down''), c)"
    by (rule shut_pushSerializedMsg [OF na])
  have 2: "push sz (IsEvent e) c = pushEvent sz e c" and 3: "push sz (IsMetric m) c = pushMetric sz m c"
    by (simp_all add: push_def isMetric_def)
  have 4: "pushMetrics sz ms c =
        (if multipleMetricFormatEnabled (config c)
         then (case serializeMetrics sz ms (defaultMetadata (config c)) (defaultFields (config c)) of
                 Inl x \<Rightarrow> (Inl x, c)
               | Inr z \<Rightarrow> (Inl (Error ''HEC client has been shut down''), c))
         else (case firstMeasurement (measurements ms) of
                 None \<Rightarrow> (Inr (), c)
               | Some (n, v) \<Rightarrow>
                   pushMetric sz \<lparr>metricName = n, metricValue = v, metricRest = metricsRest ms\<rparr> c))"
    by (simp add: pushMetrics_def shut_pushSerializedMsg [OF na] shut_pushMetrics_entries [OF na]
        split: sum.splits)
  show ?thesis
    using 1 2 3 4 shut_pushEvent [OF na, of sz e] shut_pushMetric [OF na, of sz m] by simp
qed

theorem push_after_shutdown_witness:
  "pushEvent example_serializer ''hello''
      (run example_serializer [PushEvent ''late'', Flush] (snd (shutdown None example_client)))
     = (Inl (Error ''HEC client has been shut down''),
        run example_serializer [PushEvent ''late'', Flush] (snd (shutdown None example_client)))"
  using push_after_shutdown [OF refl, where sz = example_serializer
      and ss = "[PushEvent ''late'', Flush]" and maxTime = None and ?c0.0 = example_client
      and e = "''hello''"]
  by (simp add: example_serializer_def)

text \<open>
  The specification has every push fail after shutdown. \<open>pushMetrics\<close> with the
  multi-measurement format disabled and no measurement that is not null returns normally.
\<close>

theorem pushMetrics_after_shutdown_counterexample:
  "\<not> active (snd (shutdown None example_client))
   \<and> pushMetrics example_serializer \<lparr>measurements = [(''cpu'', None)], metricsRest = ()\<rparr>
         (snd (shutdown None example_client))
       = (Inr (), snd (shutdown None example_client))"
  by (simp add: active_shutdown)
     (simp add: pushMetrics_def shutdown_def shutdown_resume_def Let_def example_client_def
        HecClient_init_def example_config_def)

subsection \<open>The retry loop of sendToHec\<close>

lemma resume_failed_past_cap:
  "\<not> succeeded r \<Longrightarrow> phase t = Fetching \<Longrightarrow> \<not> abortSignal t \<Longrightarrow> maxRetries cfg < attempt t \<Longrightarrow>
   sendToHec_resume cfg (FetchSettled r) t cs
     = (Inl (t\<lparr>attempt := attempt t + 1\<rparr>), cs\<lparr>errorCount := errorCount cs + 1\<rparr>)"
  by (cases r) (auto simp: sendToHec_resume_def succeeded_def catch_block_def)

text \<open>
  C1 (what the code does). A send whose attempt number exceeds \<open>maxRetries\<close> and whose
  signal is not aborted answers a failed POST by starting the next attempt at once: after
  \<open>n\<close> more failures it is still in flight, at \<open>n\<close> attempts more, with \<open>errorCount\<close>
  raised by \<open>n\<close>; its promise is not rejected.
\<close>

theorem sendToHec_retries_past_maxRetries:
  assumes "\<not> succeeded r" and "phase t = Fetching" and "\<not> abortSignal t"
    and "maxRetries cfg < attempt t"
  shows "sendToHec_run cfg (replicate n (FetchSettled r)) (Inl t, cs)
     = (Inl (t\<lparr>attempt := attempt t + int n\<rparr>), cs\<lparr>errorCount := errorCount cs + int n\<rparr>)"
  using assms
proof (induction n arbitrary: t cs)
  case 0
  then show ?case by simp
next
  case (Suc n)
  have step: "sendToHec_resume cfg (FetchSettled r) t cs
     = (Inl (t\<lparr>attempt := attempt t + 1\<rparr>), cs\<lparr>errorCount := errorCount cs + 1\<rparr>)"
    by (rule resume_failed_past_cap [OF Suc.prems])
  have "sendToHec_run cfg (replicate n (FetchSettled r))
          (Inl (t\<lparr>attempt := attempt t + 1\<rparr>), cs\<lparr>errorCount := errorCount cs + 1\<rparr>)
        = (Inl (t\<lparr>attempt := attempt t + 1\<rparr>\<lparr>attempt := attempt (t\<lparr>attempt := attempt t + 1\<rparr>) + int n\<rparr>),
           cs\<lparr>errorCount := errorCount cs + 1\<rparr>\<lparr>errorCount := errorCount (cs\<lparr>errorCount := errorCount cs + 1\<rparr>) + int n\<rparr>)"
    using Suc.prems by (intro Suc.IH) simp_all
  then show ?case using step by (simp add: add.assoc add.commute)
qed

theorem sendToHec_retries_past_maxRetries_witness:
  "sendToHec_run (example_config\<lparr>maxRetries := 1\<rparr>)
      [FetchSettled (Response 503), SleepDone, FetchSettled (Response 503), FetchSettled (Response 503),
       FetchSettled (Response 503)]
      (Inl (sendToHec (example_config\<lparr>maxRetries := 1\<rparr>) [''a'']), initialCounters)
   = (Inl \<lparr>msgs = [''a''], body = ''a'', abortSignal = False, attempt = 5, phase = Fetching\<rparr>,
      initialCounters\<lparr>errorCount := 4, retryCount := 1\<rparr>)
   \<and> activeFlushing
       (run example_serializer
          [PushEvent ''a'', Flush, Delivers 0 (FetchSettled (Response 503)), Delivers 0 SleepDone,
           Delivers 0 (FetchSettled (Response 503)), Delivers 0 (FetchSettled (Response 503)),
           Delivers 0 (FetchSettled (Response 503))]
          (example_client\<lparr>config := example_config\<lparr>maxRetries := 1\<rparr>\<rparr>))
     = [\<lparr>msgs = [''a''], body = ''a'', abortSignal = False, attempt = 5, phase = Fetching\<rparr>]"
proof -
  let ?cfg = "example_config\<lparr>maxRetries := 1\<rparr>"
  let ?t = "\<lparr>msgs = [''a''], body = ''a'', abortSignal = False, attempt = 2, phase = Fetching\<rparr>"
  let ?cs = "initialCounters\<lparr>errorCount := 1, retryCount := 1\<rparr>"
  have pre: "sendToHec_run ?cfg [FetchSettled (Response 503), SleepDone] (Inl (sendToHec ?cfg [''a'']), initialCounters)
        = (Inl ?t, ?cs)"
    by (simp add: sendToHec_def example_config_def sendToHec_resume_def ok_def catch_block_def initialCounters_def)
  have h: "\<not> succeeded (Response 503)" "phase ?t = Fetching" "\<not> abortSignal ?t" "maxRetries ?cfg < attempt ?t"
    by (simp_all add: succeeded_def ok_def example_config_def)
  have "sendToHec_run ?cfg (replicate 3 (FetchSettled (Response 503))) (Inl ?t, ?cs)
     = (Inl (?t\<lparr>attempt := attempt ?t + int 3\<rparr>), ?cs\<lparr>errorCount := errorCount ?cs + int 3\<rparr>)"
    by (rule sendToHec_retries_past_maxRetries [OF h])
  then have t: "sendToHec_run ?cfg
      [FetchSettled (Response 503), SleepDone, FetchSettled (Response 503), FetchSettled (Response 503),
       FetchSettled (Response 503)]
      (Inl (sendToHec ?cfg [''a'']), initialCounters)
   = (Inl \<lparr>msgs = [''a''], body = ''a'', abortSignal = False, attempt = 5, phase = Fetching\<rparr>,
      initialCounters\<lparr>errorCount := 4, retryCount := 1\<rparr>)"
    by (simp add: sendToHec_def example_config_def sendToHec_resume_def ok_def catch_block_def
        initialCounters_def numeral_3_eq_3)
  have r: "activeFlushing
       (run example_serializer
          [PushEvent ''a'', Flush, Delivers 0 (FetchSettled (Response 503)), Delivers 0 SleepDone,
           Delivers 0 (FetchSettled (Response 503)), Delivers 0 (FetchSettled (Response 503)),
           Delivers 0 (FetchSettled (Response 503))]
          (example_client\<lparr>config := ?cfg\<rparr>))
     = [\<lparr>msgs = [''a''], body = ''a'', abortSignal = False, attempt = 5, phase = Fetching\<rparr>]"
    by (simp add: example_serializer_def example_client_def HecClient_init_def example_config_def
        pushEvent_def pushSerializedMsg_def scheduleFlush_def flushInternal_def flush_def Let_def
        deliver_def sendToHec_def sendToHec_resume_def catch_block_def ok_def initialCounters_def)
  show ?thesis using t r by simp
qed

text \<open>
  C6. With \<open>maxRetries = 3\<close> and a signal that is not aborted, a send whose first two
  POSTs fail (a status outside 200..299, or a rejected fetch) and whose third gets a 2xx
  response is fulfilled; \<open>errorCount\<close> and \<open>retryCount\<close> grow by exactly 2,
  \<open>sentMessages\<close> by the number of messages of the batch, \<open>sentBytes\<close> by the
  uncompressed byte count and \<open>transferredBytes\<close> by the byte count of the body on the
  wire (the compressed body \<open>z\<close> with gzip). The wait between attempts, constant or not,
  does not enter.
\<close>

theorem sendToHec_two_failures_then_success:
  assumes "maxRetries cfg = 3" and "\<not> succeeded r1" and "\<not> succeeded r2" and "ok status"
  shows "sendToHec_run cfg
           ((if gzip cfg then [CompressSettled (Inr z)] else [])
            @ [FetchSettled r1, SleepDone, FetchSettled r2, SleepDone, FetchSettled (Response status)])
           (Inl (sendToHec cfg ms), cs)
         = (Inr Fulfilled,
            cs\<lparr>errorCount := errorCount cs + 2, retryCount := retryCount cs + 2,
               sentMessages := sentMessages cs + int (length ms),
               sentBytes := sentBytes cs + int (length (concat ms)),
               transferredBytes := transferredBytes cs + int (length (if gzip cfg then z else concat ms))\<rparr>)"
proof -
  have f1: "\<And>t cs. phase t = Fetching \<Longrightarrow> \<not> abortSignal t \<Longrightarrow> attempt t \<le> 3 \<Longrightarrow>
      sendToHec_resume cfg (FetchSettled r1) t cs
       = (Inl (t\<lparr>phase := Sleeping (resolveWaitTime (retryWaitTime cfg) (attempt t))\<rparr>),
          cs\<lparr>errorCount := errorCount cs + 1\<rparr>)"
    using assms(1,2) by (cases r1) (auto simp: sendToHec_resume_def succeeded_def catch_block_def)
  have f2: "\<And>t cs. phase t = Fetching \<Longrightarrow> \<not> abortSignal t \<Longrightarrow> attempt t \<le> 3 \<Longrightarrow>
      sendToHec_resume cfg (FetchSettled r2) t cs
       = (Inl (t\<lparr>phase := Sleeping (resolveWaitTime (retryWaitTime cfg) (attempt t))\<rparr>),
          cs\<lparr>errorCount := errorCount cs + 1\<rparr>)"
    using assms(1,3) by (cases r2) (auto simp: sendToHec_resume_def succeeded_def catch_block_def)
  have sl: "\<And>t cs d. phase t = Sleeping d \<Longrightarrow> \<not> abortSignal t \<Longrightarrow>
      sendToHec_resume cfg SleepDone t cs
       = (Inl (t\<lparr>attempt := attempt t + 1, phase := Fetching\<rparr>), cs\<lparr>retryCount := retryCount cs + 1\<rparr>)"
    by (simp add: sendToHec_resume_def)
  have fin: "\<And>t cs. phase t = Fetching \<Longrightarrow>
      sendToHec_resume cfg (FetchSettled (Response status)) t cs
       = (Inr Fulfilled,
            cs\<lparr>sentMessages := sentMessages cs + int (length (msgs t)),
               sentBytes := sentBytes cs + int (length (concat (msgs t))),
               transferredBytes := transferredBytes cs + int (length (body t))\<rparr>)"
    using assms(4) by (simp add: sendToHec_resume_def)
  show ?thesis
  proof (cases "gzip cfg")
    case True
    have c0: "sendToHec_resume cfg (CompressSettled (Inr z)) (sendToHec cfg ms) cs
       = (Inl \<lparr>msgs = ms, body = z, abortSignal = False, attempt = 1, phase = Fetching\<rparr>, cs)"
      using True by (simp add: sendToHec_resume_def sendToHec_def)
    show ?thesis using True by (simp add: c0 f1 f2 sl fin)
  next
    case False
    have c0: "sendToHec cfg ms = \<lparr>msgs = ms, body = concat ms, abortSignal = False, attempt = 1, phase = Fetching\<rparr>"
      using False by (simp add: sendToHec_def)
    show ?thesis using False by (simp add: c0 f1 f2 sl fin)
  qed
qed

theorem sendToHec_two_failures_then_success_witness:
  "maxRetries example_config = 3 \<and> \<not> succeeded (Response 503) \<and> ok 200
   \<and> sendToHec_run example_config
        [FetchSettled (Response 503), SleepDone, FetchSettled (Response 503), SleepDone,
         FetchSettled (Response 200)]
        (Inl (sendToHec example_config [''ab'', ''cde'']), initialCounters)
      = (Inr Fulfilled,
         \<lparr>errorCount = 2, retryCount = 2, queuedMessages = 0, sentMessages = 2, queuedBytes = 0,
          sentBytes = 5, transferredBytes = 5\<rparr>)
   \<and> run example_serializer
        [PushEvent ''ab'', PushEvent ''cde'', Flush,
         Delivers 0 (FetchSettled (Response 503)), Delivers 0 SleepDone,
         Delivers 0 (FetchSettled (Response 503)), Delivers 0 SleepDone,
         Delivers 0 (FetchSettled (Response 200))] example_client
      = example_client
          \<lparr>counters := \<lparr>errorCount = 2, retryCount = 2, queuedMessages = 2, sentMessages = 2,
                        queuedBytes = 5, sentBytes = 5, transferredBytes = 5\<rparr>\<rparr>"
proof -
  have h: "maxRetries example_config = 3" "\<not> succeeded (Response 503)" "ok 200"
    by (simp_all add: example_config_def succeeded_def ok_def)
  have g: "\<not> gzip example_config" by (simp add: example_config_def)
  have t: "sendToHec_run example_config
        [FetchSettled (Response 503), SleepDone, FetchSettled (Response 503), SleepDone,
         FetchSettled (Response 200)]
        (Inl (sendToHec example_config [''ab'', ''cde'']), initialCounters)
      = (Inr Fulfilled,
         \<lparr>errorCount = 2, retryCount = 2, queuedMessages = 0, sentMessages = 2, queuedBytes = 0,
          sentBytes = 5, transferredBytes = 5\<rparr>)"
    using g sendToHec_two_failures_then_success [OF h(1) h(2) h(2) h(3), of "[]" "[''ab'', ''cde'']" initialCounters]
    by (simp add: initialCounters_def)
  have r: "run example_serializer
        [PushEvent ''ab'', PushEvent ''cde'', Flush,
         Delivers 0 (FetchSettled (Response 503)), Delivers 0 SleepDone,
         Delivers 0 (FetchSettled (Response 503)), Delivers 0 SleepDone,
         Delivers 0 (FetchSettled (Response 200))] example_client
      = example_client
          \<lparr>counters := \<lparr>errorCount = 2, retryCount = 2, queuedMessages = 2, sentMessages = 2,
                        queuedBytes = 5, sentBytes = 5, transferredBytes = 5\<rparr>\<rparr>"
    by (simp add: example_serializer_def example_client_def HecClient_init_def example_config_def
        pushEvent_def pushSerializedMsg_def scheduleFlush_def flushInternal_def flush_def Let_def
        deliver_def sendToHec_def sendToHec_resume_def catch_block_def ok_def initialCounters_def)
  show ?thesis using h t r by simp
qed

subsection \<open>Cancellation of a send\<close>

lemma activeFlushing_shutdown_resume:
  "activeFlushing (shutdown_resume c) = map cancel (activeFlushing c)"
  by (simp add: shutdown_resume_def)

lemma rejection_of_resume:
  "(case fst (sendToHec_resume cfg ev t cs) of
      Inl t' \<Rightarrow> True
    | Inr Fulfilled \<Rightarrow> True
    | Inr (Rejected x) \<Rightarrow> x = Error ''Aborted'' \<or> ev = CompressSettled (Inl x))"
proof (cases ev)
  case (CompressSettled x)
  then show ?thesis
    by (cases x; cases "phase t") (simp_all add: sendToHec_resume_def)
next
  case (FetchSettled r)
  then show ?thesis
    by (cases r; cases "phase t") (simp_all add: sendToHec_resume_def catch_block_def Let_def)
next
  case SleepDone
  then show ?thesis by (cases "phase t") (simp_all add: sendToHec_resume_def)
next
  case AbortCalled
  then show ?thesis by (simp add: sendToHec_resume_def)
qed

text \<open>
  C2 (amended). The firing of a flush's cancellation token settles nothing by itself: the
  send stays suspended with its signal set. The send reads the signal at two points, the
  catch block after a failed POST and the end of the sleep between two attempts, and is
  rejected there with a generic \<open>Error\<close> whose message is "Aborted". Fired while a POST
  is awaited: rejected so when that POST fails, fulfilled when it still gets a 2xx
  response. Fired during the sleep: the send sleeps the whole wait and is then rejected
  so. Fired while \<open>compressBody\<close> is awaited: a failing compression rejects the send
  with the compression's own error; otherwise the first POST is made with the signal set,
  with the outcomes above. A send is never rejected with anything but
  \<open>Error ''Aborted''\<close> or the error of its compression, and \<open>Error ''Aborted''\<close> is
  not the \<open>ABORT\<close> sentinel. The second half of \<open>shutdown\<close> calls \<open>cancel\<close> on every
  flush handle in the active set, which sets its signal and nothing else.
\<close>

theorem sendToHec_abort_rejects_with_Error:
  "sendToHec_run cfg [AbortCalled] (Inl t, cs) = (Inl (t\<lparr>abortSignal := True\<rparr>), cs)
   \<and> sendToHec_run cfg [AbortCalled, FetchSettled r] (Inl (t\<lparr>phase := Fetching\<rparr>), cs)
     = (if succeeded r
        then (Inr Fulfilled,
              cs\<lparr>sentMessages := sentMessages cs + int (length (msgs t)),
                 sentBytes := sentBytes cs + int (length (concat (msgs t))),
                 transferredBytes := transferredBytes cs + int (length (body t))\<rparr>)
        else (Inr (Rejected (Error ''Aborted'')), cs\<lparr>errorCount := errorCount cs + 1\<rparr>))
   \<and> sendToHec_run cfg [AbortCalled] (Inl (t\<lparr>phase := Sleeping d\<rparr>), cs)
     = (Inl (t\<lparr>abortSignal := True, phase := Sleeping d\<rparr>), cs)
   \<and> sendToHec_run cfg [AbortCalled, SleepDone] (Inl (t\<lparr>phase := Sleeping d\<rparr>), cs)
     = (Inr (Rejected (Error ''Aborted'')), cs)
   \<and> sendToHec_run cfg [AbortCalled, CompressSettled (Inl e)] (Inl (t\<lparr>phase := Compressing\<rparr>), cs)
     = (Inr (Rejected e), cs)
   \<and> sendToHec_run cfg [AbortCalled, CompressSettled (Inr z), FetchSettled r]
        (Inl (t\<lparr>phase := Compressing\<rparr>), cs)
     = (if succeeded r
        then (Inr Fulfilled,
              cs\<lparr>sentMessages := sentMessages cs + int (length (msgs t)),
                 sentBytes := sentBytes cs + int (length (concat (msgs t))),
                 transferredBytes := transferredBytes cs + int (length z)\<rparr>)
        else (Inr (Rejected (Error ''Aborted'')), cs\<lparr>errorCount := errorCount cs + 1\<rparr>))
   \<and> (case fst (sendToHec_resume cfg ev t cs) of
         Inl t' \<Rightarrow> True
       | Inr Fulfilled \<Rightarrow> True
       | Inr (Rejected x) \<Rightarrow> x = Error ''Aborted'' \<or> ev = CompressSettled (Inl x))
   \<and> Rejected (Error ''Aborted'') \<noteq> Rejected ABORT
   \<and> activeFlushing (shutdown_resume c) = map cancel (activeFlushing c)
   \<and> cancel f = f\<lparr>abortSignal := True\<rparr>"
proof -
  have 0: "sendToHec_run cfg [AbortCalled] (Inl t, cs) = (Inl (t\<lparr>abortSignal := True\<rparr>), cs)"
    by (simp add: sendToHec_resume_def cancel_def)
  have 1: "sendToHec_run cfg [AbortCalled, FetchSettled r] (Inl (t\<lparr>phase := Fetching\<rparr>), cs)
     = (if succeeded r
        then (Inr Fulfilled,
              cs\<lparr>sentMessages := sentMessages cs + int (length (msgs t)),
                 sentBytes := sentBytes cs + int (length (concat (msgs t))),
                 transferredBytes := transferredBytes cs + int (length (body t))\<rparr>)
        else (Inr (Rejected (Error ''Aborted'')), cs\<lparr>errorCount := errorCount cs + 1\<rparr>))"
    by (cases r) (simp_all add: sendToHec_resume_def cancel_def succeeded_def catch_block_def)
  have 2: "sendToHec_run cfg [AbortCalled] (Inl (t\<lparr>phase := Sleeping d\<rparr>), cs)
     = (Inl (t\<lparr>abortSignal := True, phase := Sleeping d\<rparr>), cs)"
    by (simp add: sendToHec_resume_def cancel_def)
  have 3: "sendToHec_run cfg [AbortCalled, SleepDone] (Inl (t\<lparr>phase := Sleeping d\<rparr>), cs)
     = (Inr (Rejected (Error ''Aborted'')), cs)"
    by (simp add: sendToHec_resume_def cancel_def)
  have 4: "sendToHec_run cfg [AbortCalled, CompressSettled (Inl e)] (Inl (t\<lparr>phase := Compressing\<rparr>), cs)
     = (Inr (Rejected e), cs)"
    by (simp add: sendToHec_resume_def cancel_def)
  have 5: "sendToHec_run cfg [AbortCalled, CompressSettled (Inr z), FetchSettled r]
        (Inl (t\<lparr>phase := Compressing\<rparr>), cs)
     = (if succeeded r
        then (Inr Fulfilled,
              cs\<lparr>sentMessages := sentMessages cs + int (length (msgs t)),
                 sentBytes := sentBytes cs + int (length (concat (msgs t))),
                 transferredBytes := transferredBytes cs + int (length z)\<rparr>)
        else (Inr (Rejected (Error ''Aborted'')), cs\<lparr>errorCount := errorCount cs + 1\<rparr>))"
    by (cases r) (simp_all add: sendToHec_resume_def cancel_def succeeded_def catch_block_def)
  have 6: "cancel f = f\<lparr>abortSignal := True\<rparr>" by (simp add: cancel_def)
  show ?thesis
    using 0 1 2 3 4 5 6 rejection_of_resume [where cfg = cfg and ev = ev and t = t and cs = cs] activeFlushing_shutdown_resume [of c]
    by simp
qed

text \<open>
  The specification has the completion signal fail with the sentinel. A send
  cancelled during its sleep after a 503 is rejected with \<open>Error ''Aborted''\<close>; a
  send with gzip cancelled while its body is compressed, whose compression then fails, is
  rejected with the error of the compression.
\<close>

theorem sendToHec_abort_counterexample:
  "sendToHec_run example_config [FetchSettled (Response 503), AbortCalled, SleepDone]
      (Inl (sendToHec example_config [''a'']), initialCounters)
     = (Inr (Rejected (Error ''Aborted'')), initialCounters\<lparr>errorCount := 1\<rparr>)
   \<and> deliver 0 SleepDone
         (run example_serializer
            [PushEvent ''a'', Flush, Delivers 0 (FetchSettled (Response 503)), Shutdown (Some 0),
             ShutdownResumes] example_client)
       = (Some (Rejected (Error ''Aborted'')),
          example_client
            \<lparr>active := False,
             counters := initialCounters\<lparr>errorCount := 1, queuedMessages := 1, queuedBytes := 1\<rparr>\<rparr>)
   \<and> sendToHec_run (example_config\<lparr>gzip := True\<rparr>)
        [AbortCalled, CompressSettled (Inl (Error ''zlib''))]
        (Inl (sendToHec (example_config\<lparr>gzip := True\<rparr>) [''a'']), initialCounters)
     = (Inr (Rejected (Error ''zlib'')), initialCounters)
   \<and> Rejected (Error ''Aborted'') \<noteq> Rejected ABORT
   \<and> Rejected (Error ''zlib'') \<noteq> Rejected ABORT"
proof -
  have z: "sendToHec_run (example_config\<lparr>gzip := True\<rparr>)
        [AbortCalled, CompressSettled (Inl (Error ''zlib''))]
        (Inl (sendToHec (example_config\<lparr>gzip := True\<rparr>) [''a'']), initialCounters)
     = (Inr (Rejected (Error ''zlib'')), initialCounters)"
    by (simp add: sendToHec_def example_config_def sendToHec_resume_def cancel_def)
  have t: "sendToHec_run example_config [FetchSettled (Response 503), AbortCalled, SleepDone]
      (Inl (sendToHec example_config [''a'']), initialCounters)
     = (Inr (Rejected (Error ''Aborted'')), initialCounters\<lparr>errorCount := 1\<rparr>)"
    by (simp add: sendToHec_def example_config_def sendToHec_resume_def ok_def catch_block_def
        cancel_def initialCounters_def)
  have r: "deliver 0 SleepDone
         (run example_serializer
            [PushEvent ''a'', Flush, Delivers 0 (FetchSettled (Response 503)), Shutdown (Some 0),
             ShutdownResumes] example_client)
       = (Some (Rejected (Error ''Aborted'')),
          example_client
            \<lparr>active := False,
             counters := initialCounters\<lparr>errorCount := 1, queuedMessages := 1, queuedBytes := 1\<rparr>\<rparr>)"
    by (simp add: example_serializer_def example_client_def HecClient_init_def example_config_def
        pushEvent_def pushSerializedMsg_def scheduleFlush_def flushInternal_def flush_def Let_def
        deliver_def sendToHec_def sendToHec_resume_def catch_block_def ok_def initialCounters_def
        shutdown_def shutdown_resume_def cancel_def)
  show ?thesis using t r z by simp
qed

subsection \<open>clone\<close>

text \<open>
  C8. For a client and an HTTP agent made earlier (their identities are below the counts
  of objects made): \<open>clone\<close> without overrides, or with overrides that have no key left
  after \<open>removeEmtpyValues\<close>, returns the client itself. With other overrides, and the
  merged configuration accepted by the constructor, it returns a client with a new
  identity whose configuration is the one parsed from \<open>deepMerge\<close> of the current
  configuration and the overrides; when the overrides carry a non-empty URL that differs
  from the current one, its HTTP agent is a new one, otherwise it is the agent of the
  client cloned.
\<close>

theorem clone_same_new_shared:
  assumes "instanceId this < clientsMade al" and "agentId (httpAgent this) < agentsMade al"
  shows "clone im this None al = Inr (this, al)
    \<and> (length (keys im (removeEmtpyValues im ov)) = 0 \<longrightarrow> clone im this (Some ov) al = Inr (this, al))
    \<and> (length (keys im (removeEmtpyValues im ov)) \<noteq> 0
         \<and> parseHecConfig im (deepMerge im (config this) ov) = Inr cooked
       \<longrightarrow> (\<exists>cloned al'. clone im this (Some ov) al = Inr (cloned, al')
              \<and> instanceId cloned \<noteq> instanceId this
              \<and> config cloned = cooked
              \<and> (if (case urlOf im ov of None \<Rightarrow> False | Some u \<Rightarrow> u \<noteq> [] \<and> u \<noteq> url (config this))
                  then agentId (httpAgent cloned) \<noteq> agentId (httpAgent this)
                       \<and> agentId (httpAgent cloned) = agentsMade al
                  else httpAgent cloned = httpAgent this)))"
  using assms
  by (auto simp: clone_def HecClient_new_def HecClient_init_def split: option.splits)

theorem clone_same_new_shared_witness:
  "instanceId example_client < clientsMade \<lparr>clientsMade = 1, agentsMade = 1\<rparr>
   \<and> agentId (httpAgent example_client) < agentsMade \<lparr>clientsMade = 1, agentsMade = 1\<rparr>
   \<and> clone example_imports example_client (Some [(''token'', [])]) \<lparr>clientsMade = 1, agentsMade = 1\<rparr>
       = Inr (example_client, \<lparr>clientsMade = 1, agentsMade = 1\<rparr>)
   \<and> (\<exists>cloned al'.
         clone example_imports example_client (Some [(''url'', ''https://other:8088'')])
           \<lparr>clientsMade = 1, agentsMade = 1\<rparr> = Inr (cloned, al')
         \<and> instanceId cloned \<noteq> instanceId example_client
         \<and> agentId (httpAgent cloned) \<noteq> agentId (httpAgent example_client))
   \<and> (\<exists>cloned al'.
         clone example_imports example_client (Some [(''token'', ''secret'')])
           \<lparr>clientsMade = 1, agentsMade = 1\<rparr> = Inr (cloned, al')
         \<and> instanceId cloned \<noteq> instanceId example_client
         \<and> httpAgent cloned = httpAgent example_client)"
proof -
  let ?al = "\<lparr>clientsMade = 1, agentsMade = 1\<rparr>"
  have h: "instanceId example_client < clientsMade ?al" "agentId (httpAgent example_client) < agentsMade ?al"
    by (simp_all add: example_client_def HecClient_init_def)
  have u: "url (config example_client) = ''http://localhost:8088/services/collector/event/1.0''"
    by (simp add: example_client_def HecClient_init_def example_config_def)
  show ?thesis
    using h
      clone_same_new_shared [OF h, of example_imports "[(''token'', [])]"]
      clone_same_new_shared [OF h, of example_imports "[(''url'', ''https://other:8088'')]"
        "example_config\<lparr>url := ''https://other:8088''\<rparr>"]
      clone_same_new_shared [OF h, of example_imports "[(''token'', ''secret'')]"
        "example_config\<lparr>url := ''http://localhost:8088/services/collector/event/1.0''\<rparr>"]
    by (simp add: example_imports_def u) blast
qed

subsection \<open>The abort handle\<close>

lemma length_fold_update: "length (fold (\<lambda>k ps. ps[k := b]) ks ps) = length ps"
  by (induction ks arbitrary: ps) simp_all

lemma aborted_exec: "aborted h \<Longrightarrow> aborted (abort_exec s h)"
  by (cases s) (simp_all add: withAbort_def withAbort_finally_def abort_def)

lemma aborted_run: "aborted h \<Longrightarrow> aborted (abort_run ss h)"
  by (induction ss arbitrary: h) (simp_all add: aborted_exec)

lemma handles_wf_exec: "handles_wf h \<Longrightarrow> handles_wf (abort_exec s h)"
  by (cases s)
     (auto simp: handles_wf_def withAbort_def withAbort_finally_def abort_def Let_def list_all_iff
        length_fold_update)

lemma handles_wf_run: "handles_wf h \<Longrightarrow> handles_wf (abort_run ss h)"
  by (induction ss arbitrary: h) (simp_all add: handles_wf_exec)

lemma handles_wf_new: "handles_wf AbortHandle_new"
  by (simp add: handles_wf_def AbortHandle_new_def)

lemma fresh_not_member: "handles_wf h \<Longrightarrow> length (promises h) \<notin> set (handles h)"
  by (auto simp: handles_wf_def list_all_iff)

lemma gone_exec: "gone k h \<Longrightarrow> gone k (abort_exec s h)"
  by (cases s)
     (auto simp: gone_def withAbort_def withAbort_finally_def abort_def Let_def length_fold_update)

lemma gone_run: "gone k h \<Longrightarrow> gone k (abort_run ss h)"
  by (induction ss arbitrary: h) (simp_all add: gone_exec)

lemma length_promises_exec: "length (promises h) \<le> length (promises (abort_exec s h))"
  by (cases s) (simp_all add: withAbort_def withAbort_finally_def abort_def Let_def length_fold_update)

lemma length_promises_run: "length (promises h) \<le> length (promises (abort_run ss h))"
proof (induction ss arbitrary: h)
  case Nil
  then show ?case by simp
next
  case (Cons s ss)
  have "length (promises h) \<le> length (promises (abort_exec s h))" by (rule length_promises_exec)
  also have "\<dots> \<le> length (promises (abort_run ss (abort_exec s h)))" by (rule Cons.IH)
  finally show ?case by simp
qed

text \<open>
  C9. Once \<open>abort\<close> has been called on an abort handle, whatever happens later, every
  call of \<open>withAbort\<close> is rejected with \<open>ABORT\<close> at once: the handle and the state of
  the closure are untouched, the closure is not run; and \<open>abort\<close> empties the set. On a
  handle reached from a new one that is not aborted, \<open>withAbort\<close> creates a promise
  that was not in the set, adds it and runs the closure with it. When the closure's
  promise settles, fulfilled or rejected, after any steps in the meantime (other calls,
  their ends, \<open>abort\<close>), the \<open>finally\<close> block leaves the set without that promise, and
  no later step brings it back.
\<close>

theorem withAbort_after_abort_and_no_leak:
  "withAbort fn (abort_run later (abort h)) u = (Inl ABORT, abort_run later (abort h), u)
   \<and> handles (abort h) = []
   \<and> withAbort fn (abort_run before AbortHandle_new) u
       = (if aborted (abort_run before AbortHandle_new)
          then (Inl ABORT, abort_run before AbortHandle_new, u)
          else (Inr (length (promises (abort_run before AbortHandle_new))),
                (abort_run before AbortHandle_new)
                  \<lparr>promises := promises (abort_run before AbortHandle_new) @ [False],
                   handles := handles (abort_run before AbortHandle_new)
                              @ [length (promises (abort_run before AbortHandle_new))]\<rparr>,
                fn (length (promises (abort_run before AbortHandle_new))) u))
   \<and> length (promises (abort_run before AbortHandle_new)) \<notin> set (handles (abort_run before AbortHandle_new))
   \<and> length (promises (abort_run before AbortHandle_new))
       \<notin> set (handles (abort_run later
            (withAbort_finally (length (promises (abort_run before AbortHandle_new)))
               (abort_run meanwhile
                  ((abort_run before AbortHandle_new)
                     \<lparr>promises := promises (abort_run before AbortHandle_new) @ [False],
                      handles := handles (abort_run before AbortHandle_new)
                                 @ [length (promises (abort_run before AbortHandle_new))]\<rparr>)))))"
proof -
  define g where "g = abort_run before AbortHandle_new"
  define k where "k = length (promises g)"
  define g' where "g' = g\<lparr>promises := promises g @ [False], handles := handles g @ [k]\<rparr>"
  have wf: "handles_wf g" unfolding g_def by (rule handles_wf_run [OF handles_wf_new])
  have fresh: "k \<notin> set (handles g)" unfolding k_def by (rule fresh_not_member [OF wf])
  have "aborted (abort h)" by (simp add: abort_def)
  then have ab: "aborted (abort_run later (abort h))" by (rule aborted_run)
  have 1: "withAbort fn (abort_run later (abort h)) u = (Inl ABORT, abort_run later (abort h), u)"
    using ab by (simp add: withAbort_def)
  have 2: "handles (abort h) = []" by (simp add: abort_def)
  have 3: "withAbort fn g u = (if aborted g then (Inl ABORT, g, u) else (Inr k, g', fn k u))"
    using fresh by (simp add: withAbort_def Let_def k_def g'_def)
  have "k < length (promises g')" by (simp add: g'_def k_def)
  also have "\<dots> \<le> length (promises (abort_run meanwhile g'))" by (rule length_promises_run)
  finally have "k < length (promises (withAbort_finally k (abort_run meanwhile g')))"
    by (simp add: withAbort_finally_def)
  then have "gone k (withAbort_finally k (abort_run meanwhile g'))"
    by (simp add: gone_def withAbort_finally_def)
  then have "gone k (abort_run later (withAbort_finally k (abort_run meanwhile g')))"
    by (rule gone_run)
  then have 5: "k \<notin> set (handles (abort_run later (withAbort_finally k (abort_run meanwhile g'))))"
    by (simp add: gone_def)
  show ?thesis
    using 1 2 3 fresh 5 unfolding g'_def k_def g_def by simp
qed

end
